theory Spec2Isabelle
  imports Complex_Main "HOL-Library.Char_ord" "HOL-Library.List_Lexorder" "HOL-Library.Multiset"
begin

section \<open>Lebanese immigration dashboard: the data engine of \<open>app.py\<close>\<close>

text \<open>
  The program reads a CSV table with pandas, coerces six count columns, derives the
  district and governorate names and a per-row total, and computes ranked and grouped
  views for the dashboard. The definitions below follow \<open>app.py\<close> line by line; the
  pandas and Python built-ins it calls are modelled by their documented behaviour.
  Counts are modelled as unbounded integers (the columns hold head counts), so sums are
  exact.
\<close>

subsection \<open>Python and pandas primitives\<close>

text \<open>The exceptions this program can raise without catching them.\<close>

datatype py_error = KeyError | ValueError

text \<open>\<open>s.split(sep)\<close> for a one-character separator: never an empty list.\<close>

fun str_split :: "char \<Rightarrow> string \<Rightarrow> string list" where
  "str_split sep [] = [[]]"
| "str_split sep (c # cs) =
     (if c = sep then [] # str_split sep cs
      else (case str_split sep cs of
              [] \<Rightarrow> [[c]]
            | w # ws \<Rightarrow> (c # w) # ws))"

text \<open>\<open>.str[-1]\<close>: the last element of each list, \<open>NaN\<close> (here \<open>None\<close>) for an empty list.\<close>

definition str_get_last :: "string list \<Rightarrow> string option" where
  "str_get_last ws = (if ws = [] then None else Some (last ws))"

text \<open>
  \<open>s.replace(old, new)\<close>: every non-overlapping occurrence, scanning from the left; an
  empty \<open>old\<close> matches before every character and at the end.
\<close>

fun str_replace :: "string \<Rightarrow> string \<Rightarrow> string \<Rightarrow> string" where
  "str_replace old new [] = (if old = [] then new else [])"
| "str_replace [] new (c # cs) = new @ c # str_replace [] new cs"
| "str_replace (a # as) new (c # cs) =
     (if take (Suc (length as)) (c # cs) = a # as
      then new @ str_replace (a # as) new (drop (length as) cs)
      else c # str_replace (a # as) new cs)"




text \<open>
  \<open>sort_values(by, ascending=False)\<close>: pandas reverses the rows, takes the ascending
  argsort of the key and reverses the result. The argsort is modelled by insertion sort,
  which keeps rows with equal keys in their incoming order.
\<close>

definition sort_values_desc :: "('a \<Rightarrow> int) \<Rightarrow> 'a list \<Rightarrow> 'a list" where
  "sort_values_desc key rs = rev (sort_key key (rev rs))"


text \<open>
  numpy's true division of two integer scalars and multiplication by a finite positive
  constant: division by zero does not raise, it yields \<open>nan\<close> or an infinity.
\<close>

datatype np_float = Finite rat | NaN | PosInf | NegInf

definition np_true_divide :: "int \<Rightarrow> int \<Rightarrow> np_float" where
  "np_true_divide a b =
     (if b = 0 then (if a = 0 then NaN else if 0 < a then PosInf else NegInf)
      else Finite (of_int a / of_int b))"

fun np_times_100 :: "np_float \<Rightarrow> np_float" where
  "np_times_100 (Finite q) = Finite (q * 100)"
| "np_times_100 NaN = NaN"
| "np_times_100 PosInf = PosInf"
| "np_times_100 NegInf = NegInf"

subsection \<open>The table read from the CSV file\<close>

text \<open>
  A cell of a count column as pandas sees it: empty, text that is not a number, or a
  number. A row that has no entry for a column has an empty cell there. The two URI
  columns are text columns whose cells are a string or empty (a URI column without any
  text at all, which pandas would type as numeric, is not covered).
\<close>

datatype cell = Missing | Unparsable string | Numeric int

record csv_row =
  District_URI :: "string option"
  Governorate_URI :: "string option"
  cells :: "(string \<times> cell) list"

record csv_file =
  header :: "string list"
  body :: "csv_row list"

definition cell_at :: "csv_row \<Rightarrow> string \<Rightarrow> cell" where
  "cell_at r col = (case map_of (cells r) col of None \<Rightarrow> Missing | Some c \<Rightarrow> c)"

text \<open>\<open>pd.to_numeric(..., errors='coerce')\<close> and \<open>.fillna(0)\<close>.\<close>

fun to_numeric :: "cell \<Rightarrow> int option" where
  "to_numeric (Numeric n) = Some n"
| "to_numeric (Unparsable s) = None"
| "to_numeric Missing = None"

fun fillna0 :: "int option \<Rightarrow> int" where
  "fillna0 None = 0"
| "fillna0 (Some n) = n"

subsection \<open>\<open>load_data\<close>\<close>

record row =
  District :: "string option"
  Governorate :: "string option"
  counts :: "(string \<times> int) list"
  Total_Immigrants :: int

record dataframe =
  columns :: "string list"
  rows :: "row list"

definition numeric_cols :: "string list" where
  "numeric_cols = [''Number of Bangladeshi'', ''Number of Sri Lankan'', ''Number of Sudanese'',
                   ''Number of Egyptian'', ''Number of Ethiopians'', ''Number of Iraqi'']"

text \<open>\<open>df[col]\<close> at one row, for a count column of a loaded frame.\<close>

definition num :: "row \<Rightarrow> string \<Rightarrow> int" where
  "num r col = (case map_of (counts r) col of None \<Rightarrow> 0 | Some v \<Rightarrow> v)"

text \<open>\<open>.str.split('/').str[-1].str.replace('_', ' ')\<close>; an empty cell stays empty.\<close>

definition extract_name :: "string option \<Rightarrow> string option" where
  "extract_name uri =
     (case uri of
        None \<Rightarrow> None
      | Some s \<Rightarrow>
          (case str_get_last (str_split CHR ''/'' s) of
             None \<Rightarrow> None
           | Some w \<Rightarrow> Some (str_replace ''_'' '' '' w)))"

text \<open>Lines 62 to 64: the columns of \<open>numeric_cols\<close> that the table has are coerced.\<close>

definition coerce_counts :: "string list \<Rightarrow> csv_row \<Rightarrow> (string \<times> int) list" where
  "coerce_counts hdr r =
     map (\<lambda>col. (col, fillna0 (to_numeric (cell_at r col))))
       (filter (\<lambda>col. col \<in> set hdr) numeric_cols)"

definition load_row :: "string list \<Rightarrow> csv_row \<Rightarrow> row" where
  "load_row hdr r =
     (let cs = coerce_counts hdr r in
      \<lparr>District = extract_name (District_URI r),
       Governorate = extract_name (Governorate_URI r),
       counts = cs,
       Total_Immigrants =
         sum_list (map (\<lambda>col. case map_of cs col of None \<Rightarrow> 0 | Some v \<Rightarrow> v) numeric_cols)\<rparr>)"

text \<open>
  \<open>load_data\<close>: \<open>None\<close> as input is the missing file, answered by \<open>(None, None)\<close>
  (here \<open>Inr None\<close>). Selecting a column the table does not have raises \<open>KeyError\<close>, which
  the function does not catch.
\<close>

definition load_data :: "csv_file option \<Rightarrow> py_error + (dataframe \<times> string list) option" where
  "load_data file =
     (case file of
        None \<Rightarrow> Inr None
      | Some csv \<Rightarrow>
          if ''District URI'' \<notin> set (header csv) then Inl KeyError
          else if ''Governorate URI'' \<notin> set (header csv) then Inl KeyError
          else if \<not> set numeric_cols \<subseteq> set (header csv) then Inl KeyError
          else Inr (Some (\<lparr>columns = header csv @ [''District'', ''Governorate'', ''Total_Immigrants''],
                           rows = map (load_row (header csv)) (body csv)\<rparr>,
                          numeric_cols)))"

subsection \<open>Ranking: \<open>df.nlargest(top_n, 'Total_Immigrants')\<close>\<close>

text \<open>
  \<open>nlargest(n, column)\<close> with the default \<open>keep='first'\<close>: the first \<open>n\<close> rows in descending
  order of the column, earlier rows first among equal values; an empty frame for
  \<open>n \<le> 0\<close>.
\<close>

definition nlargest :: "int \<Rightarrow> row list \<Rightarrow> row list" where
  "nlargest n rs = (if n \<le> 0 then [] else take (nat n) (sort_values_desc Total_Immigrants rs))"

subsection \<open>\<open>create_stacked_bar_chart\<close>\<close>








text \<open>Line 243: the share of the top districts in all immigration, in percent.\<close>

definition top_share :: "dataframe \<Rightarrow> int \<Rightarrow> np_float" where
  "top_share df top_n =
     np_times_100
       (np_true_divide (sum_list (map Total_Immigrants (nlargest top_n (rows df))))
          (sum_list (map Total_Immigrants (rows df))))"

subsection \<open>\<open>create_governorate_analysis\<close> and the governorate insights\<close>

text \<open>
  Lines 116 to 118 build the governorate table; \<open>main\<close> repeats them in lines 265 to
  267.
\<close>

record gov_row =
  gov_Governorate :: string
  gov_counts :: "(string \<times> int) list"
  Total :: int

text \<open>\<open>groupby\<close> sorts the group keys and drops rows whose key is empty.\<close>

definition group_keys :: "row list \<Rightarrow> string list" where
  "group_keys rs = sort (remdups (List.map_filter Governorate rs))"


text \<open>Lines 116 and 117: the group sums, then the \<open>Total\<close> column across them.\<close>

definition groupby_sum :: "row list \<Rightarrow> string list \<Rightarrow> gov_row list" where
  "groupby_sum rs cols =
     map (\<lambda>g.
            (let cs = map (\<lambda>col. (col, sum_list (map (\<lambda>r. num r col)
                                                  (filter (\<lambda>r. Governorate r = Some g) rs)))) cols in
             \<lparr>gov_Governorate = g,
              gov_counts = cs,
              Total = sum_list (map (\<lambda>col. case map_of cs col of None \<Rightarrow> 0 | Some v \<Rightarrow> v) cols)\<rparr>))
       (group_keys rs)"

text \<open>Line 118: \<open>gov_data.sort_values('Total', ascending=False)\<close>.\<close>

definition gov_data :: "dataframe \<Rightarrow> string list \<Rightarrow> gov_row list" where
  "gov_data df cols = sort_values_desc Total (groupby_sum (rows df) cols)"

text \<open>Line 275: the share of the first three governorates, in percent.\<close>

definition top3_share :: "dataframe \<Rightarrow> string list \<Rightarrow> np_float" where
  "top3_share df cols =
     np_times_100
       (np_true_divide (sum_list (map Total (take 3 (gov_data df cols))))
          (sum_list (map Total (gov_data df cols))))"

subsection \<open>The key metrics of \<open>main\<close>\<close>





subsection \<open>Example tables\<close>


definition uri_header :: "string list" where
  "uri_header = [''District URI'', ''Governorate URI'']"


definition negative_csv :: csv_file where
  "negative_csv =
     \<lparr>header = uri_header @ numeric_cols,
      body = [\<lparr>District_URI = Some ''http://dbpedia.org/resource/Tyre_District'',
               Governorate_URI = Some ''http://dbpedia.org/resource/South_Governorate'',
               cells = [(''Number of Bangladeshi'', Numeric 4), (''Number of Sudanese'', Unparsable ''N/A''),
                        (''Number of Iraqi'', Numeric (- 5))]\<rparr>]\<rparr>"

definition example_csv :: csv_file where
  "example_csv =
     \<lparr>header = uri_header @ numeric_cols,
      body =
        [\<lparr>District_URI = Some ''http://dbpedia.org/resource/Baabda_District'',
          Governorate_URI = Some ''http://dbpedia.org/resource/Mount_Lebanon_Governorate'',
          cells = [(''Number of Bangladeshi'', Numeric 10), (''Number of Sudanese'', Unparsable ''N/A''),
                   (''Number of Iraqi'', Numeric 5)]\<rparr>,
         \<lparr>District_URI = Some ''http://dbpedia.org/resource/Aley_District'',
          Governorate_URI = Some ''http://dbpedia.org/resource/Mount_Lebanon_Governorate'',
          cells = []\<rparr>,
         \<lparr>District_URI = Some ''http://dbpedia.org/resource/Zahle_District'',
          Governorate_URI = Some ''http://dbpedia.org/resource/Beqaa_Governorate'',
          cells = [(''Number of Bangladeshi'', Numeric 3), (''Number of Egyptian'', Numeric 5)]\<rparr>,
         \<lparr>District_URI = Some ''http://dbpedia.org/resource/Tyre_District'',
          Governorate_URI = Some ''http://dbpedia.org/resource/South_Governorate'',
          cells = [(''Number of Iraqi'', Numeric 8)]\<rparr>]\<rparr>"

definition example_row :: "string \<Rightarrow> string \<Rightarrow> int list \<Rightarrow> row" where
  "example_row d g vs =
     \<lparr>District = Some d, Governorate = Some g, counts = zip numeric_cols vs,
      Total_Immigrants = sum_list vs\<rparr>"

definition example_df :: dataframe where
  "example_df =
     \<lparr>columns = uri_header @ numeric_cols @ [''District'', ''Governorate'', ''Total_Immigrants''],
      rows = [example_row ''Baabda District'' ''Mount Lebanon Governorate'' [10, 0, 0, 0, 0, 5],
              example_row ''Aley District'' ''Mount Lebanon Governorate'' [0, 0, 0, 0, 0, 0],
              example_row ''Zahle District'' ''Beqaa Governorate'' [3, 0, 0, 5, 0, 0],
              example_row ''Tyre District'' ''South Governorate'' [0, 0, 0, 0, 0, 8]]\<rparr>"

definition negative_df :: dataframe where
  "negative_df =
     \<lparr>columns = uri_header @ numeric_cols @ [''District'', ''Governorate'', ''Total_Immigrants''],
      rows = [example_row ''Tyre District'' ''South Governorate'' [4, 0, 0, 0, 0, - 5]]\<rparr>"


definition zero_csv :: csv_file where
  "zero_csv =
     \<lparr>header = uri_header @ numeric_cols,
      body = [\<lparr>District_URI = Some ''http://dbpedia.org/resource/Aley_District'',
               Governorate_URI = Some ''http://dbpedia.org/resource/Mount_Lebanon_Governorate'',
               cells = []\<rparr>]\<rparr>"

definition zero_df :: dataframe where
  "zero_df =
     \<lparr>columns = uri_header @ numeric_cols @ [''District'', ''Governorate'', ''Total_Immigrants''],
      rows = [example_row ''Aley District'' ''Mount Lebanon Governorate'' [0, 0, 0, 0, 0, 0]]\<rparr>"

definition cancelling_csv :: csv_file where
  "cancelling_csv =
     \<lparr>header = uri_header @ numeric_cols,
      body = [\<lparr>District_URI = Some ''http://dbpedia.org/resource/Zahle_District'',
               Governorate_URI = Some ''http://dbpedia.org/resource/Beqaa_Governorate'',
               cells = [(''Number of Bangladeshi'', Numeric 5)]\<rparr>,
              \<lparr>District_URI = Some ''http://dbpedia.org/resource/Tyre_District'',
               Governorate_URI = Some ''http://dbpedia.org/resource/South_Governorate'',
               cells = [(''Number of Iraqi'', Numeric (- 5))]\<rparr>]\<rparr>"

definition cancelling_df :: dataframe where
  "cancelling_df =
     \<lparr>columns = uri_header @ numeric_cols @ [''District'', ''Governorate'', ''Total_Immigrants''],
      rows = [example_row ''Zahle District'' ''Beqaa Governorate'' [5, 0, 0, 0, 0, 0],
              example_row ''Tyre District'' ''South Governorate'' [0, 0, 0, 0, 0, - 5]]\<rparr>"



section \<open>Properties\<close>

subsection \<open>Strings\<close>

lemma str_split_not_Nil: "str_split sep s \<noteq> []"
  by (induction s) (auto split: list.splits)

lemma str_split_no_sep: "sep \<notin> set s \<Longrightarrow> str_split sep s = [s]"
  by (induction s) auto

lemma str_split_append:
  "str_split sep (p @ sep # t) = str_split sep p @ str_split sep t"
proof (induction p)
  case Nil
  show ?case by simp
next
  case (Cons c p)
  obtain w ws where "str_split sep p = w # ws"
    using str_split_not_Nil [of sep p] by (cases "str_split sep p") auto
  with Cons show ?case by simp
qed

lemma last_str_split_append:
  "last (str_split sep (p @ sep # t)) = last (str_split sep t)"
  by (simp add: str_split_append str_split_not_Nil)

lemma str_replace_char:
  "str_replace [a] [b] s = map (\<lambda>c. if c = a then b else c) s"
  by (induction s) auto

subsection \<open>Rows built by \<open>load_data\<close>\<close>

lemma distinct_numeric_cols: "distinct numeric_cols"
  by (simp add: numeric_cols_def)

lemma map_of_graph:
  "map_of (map (\<lambda>c. (c, f c)) cs) c = (if c \<in> set cs then Some (f c) else None)"
  by (induction cs) auto

lemma sum_list_lookup_graph:
  "sum_list (map (\<lambda>c. case map_of (map (\<lambda>c. (c, f c)) cs) c of None \<Rightarrow> 0 | Some v \<Rightarrow> v) cs)
     = sum_list (map f cs)"
  by (rule arg_cong [where f = sum_list], rule map_cong) (auto simp: map_of_graph)

lemma coerce_counts_full:
  "set numeric_cols \<subseteq> set hdr \<Longrightarrow>
   coerce_counts hdr r = map (\<lambda>col. (col, fillna0 (to_numeric (cell_at r col)))) numeric_cols"
  unfolding coerce_counts_def
  by (rule arg_cong [where f = "map _"]) (auto simp: filter_id_conv)

lemma load_row_full:
  assumes "set numeric_cols \<subseteq> set hdr"
  shows "counts (load_row hdr r) = map (\<lambda>col. (col, fillna0 (to_numeric (cell_at r col)))) numeric_cols"
    and "Total_Immigrants (load_row hdr r) = sum_list (map (\<lambda>col. fillna0 (to_numeric (cell_at r col))) numeric_cols)"
    and "District (load_row hdr r) = extract_name (District_URI r)"
    and "Governorate (load_row hdr r) = extract_name (Governorate_URI r)"
  using assms by (simp_all add: load_row_def Let_def coerce_counts_full sum_list_lookup_graph)

lemma load_data_Some:
  assumes "load_data file = Inr (Some (df, cols))"
  obtains csv where "file = Some csv" "set numeric_cols \<subseteq> set (header csv)"
    "''District URI'' \<in> set (header csv)" "''Governorate URI'' \<in> set (header csv)"
    "cols = numeric_cols" "rows df = map (load_row (header csv)) (body csv)"
    "columns df = header csv @ [''District'', ''Governorate'', ''Total_Immigrants'']"
  using assms by (auto simp: load_data_def split: option.splits if_splits)

lemma num_load_row:
  assumes "set numeric_cols \<subseteq> set hdr" "col \<in> set numeric_cols"
  shows "num (load_row hdr r) col = fillna0 (to_numeric (cell_at r col))"
  using assms by (simp add: num_def load_row_full map_of_graph)



subsection \<open>Sorting in descending order\<close>

lemma sort_values_desc_mset: "mset (sort_values_desc key rs) = mset rs"
  by (simp add: sort_values_desc_def)

lemma sort_values_desc_set: "set (sort_values_desc key rs) = set rs"
  by (simp add: sort_values_desc_def)

lemma sort_values_desc_length: "length (sort_values_desc key rs) = length rs"
  by (simp add: sort_values_desc_def)

lemma sort_values_desc_sorted:
  "sorted_wrt (\<lambda>a b. key b \<le> key a) (sort_values_desc key rs)"
proof -
  have "sorted (map key (sort_key key (rev rs)))" by (rule sorted_sort_key)
  then show ?thesis
    by (simp add: sort_values_desc_def sorted_wrt_rev sorted_map)
qed

lemma sort_values_desc_stable:
  "filter (\<lambda>r. key r = k) (sort_values_desc key rs) = filter (\<lambda>r. key r = k) rs"
  by (simp add: sort_values_desc_def rev_filter [symmetric] sort_key_stable)




lemma filter_take_prefix: "\<exists>m. filter P (take n xs) = take m (filter P xs)"
proof (induction xs arbitrary: n)
  case Nil
  show ?case by simp
next
  case (Cons x xs)
  show ?case
  proof (cases n)
    case 0
    then show ?thesis by (intro exI [of _ 0]) simp
  next
    case (Suc k)
    from Cons [of k] obtain m where m: "filter P (take k xs) = take m (filter P xs)" ..
    show ?thesis
    proof (cases "P x")
      case True
      with m Suc show ?thesis by (intro exI [of _ "Suc m"]) simp
    next
      case False
      with m Suc show ?thesis by (intro exI [of _ m]) simp
    qed
  qed
qed

lemma mset_take_drop: "mset xs = mset (take k xs) + mset (drop k xs)"
  by (metis append_take_drop_id mset_append)

lemma sorted_wrt_take_drop:
  assumes "sorted_wrt R xs" "a \<in> set (take k xs)" "b \<in> set (drop k xs)"
  shows "R a b"
proof -
  from assms(1) have "sorted_wrt R (take k xs @ drop k xs)" by simp
  with assms(2,3) show ?thesis unfolding sorted_wrt_append by blast
qed

lemma nlargest_subset: "set (nlargest n rs) \<subseteq> set rs"
  by (auto simp: nlargest_def sort_values_desc_set dest: in_set_takeD)

subsection \<open>Grouping by governorate\<close>








lemma sum_list_all_zero:
  fixes xs :: "int list"
  shows "\<forall>x\<in>set xs. x = 0 \<Longrightarrow> sum_list xs = 0"
  by (induction xs) auto

lemma sum_list_nonneg_zero:
  fixes xs :: "int list"
  assumes "\<forall>x\<in>set xs. 0 \<le> x" "sum_list xs = 0"
  shows "\<forall>x\<in>set xs. x = 0"
  using assms
proof (induction xs)
  case Nil
  then show ?case by simp
next
  case (Cons x xs)
  then have "0 \<le> x" "0 \<le> sum_list xs" by (auto intro: sum_list_nonneg)
  with Cons.prems(2) have "x = 0" "sum_list xs = 0" by auto
  with Cons show ?case by auto
qed

subsection \<open>The first maximum\<close>







subsection \<open>The dictionary of nationality totals\<close>








subsection \<open>The traces of the stacked bar chart\<close>








subsection \<open>The example tables, evaluated\<close>

lemma example_loaded: "load_data (Some example_csv) = Inr (Some (example_df, numeric_cols))"
  by (simp add: load_data_def example_csv_def example_df_def example_row_def uri_header_def
      numeric_cols_def load_row_def coerce_counts_def cell_at_def extract_name_def str_get_last_def)

lemma negative_loaded:
  "load_data (Some negative_csv) = Inr (Some (negative_df, numeric_cols))"
  by (simp add: load_data_def negative_csv_def negative_df_def example_row_def uri_header_def
     numeric_cols_def load_row_def coerce_counts_def cell_at_def extract_name_def str_get_last_def)

lemma zero_loaded: "load_data (Some zero_csv) = Inr (Some (zero_df, numeric_cols))"
  by (simp add: load_data_def zero_csv_def zero_df_def example_row_def uri_header_def
      numeric_cols_def load_row_def coerce_counts_def cell_at_def extract_name_def str_get_last_def)

lemma cancelling_loaded:
  "load_data (Some cancelling_csv) = Inr (Some (cancelling_df, numeric_cols))"
  by (simp add: load_data_def cancelling_csv_def cancelling_df_def example_row_def uri_header_def
      numeric_cols_def load_row_def coerce_counts_def cell_at_def extract_name_def str_get_last_def)


lemma example_rows_length: "length (rows example_df) = 4"
  by (simp add: example_df_def)




lemma nlargest_example:
  "map District (nlargest 2 (rows example_df)) = [Some ''Baabda District'', Some ''Zahle District'']"
  by code_simp




section \<open>The claims\<close>

subsection \<open>C1: totals are sums\<close>



subsection \<open>C2: where the category list comes from\<close>




subsection \<open>C3: coercion of count cells\<close>

text \<open>
  C3. Loading keeps every row. In each of the six count columns an empty or unparsable
  cell becomes 0 and a numeric cell keeps its value, whatever its sign; so a loaded count
  is non-negative whenever its cell is not a negative number.
\<close>

theorem coercion_keeps_rows_and_numbers:
  assumes "load_data (Some csv) = Inr (Some (df, cols))"
  shows "length (rows df) = length (body csv) \<and>
         (\<forall>i<length (body csv). \<forall>col\<in>set cols.
            num (rows df ! i) col =
              (case cell_at (body csv ! i) col of
                 Numeric n \<Rightarrow> n
               | Unparsable s \<Rightarrow> 0
               | Missing \<Rightarrow> 0) \<and>
            ((\<forall>n. cell_at (body csv ! i) col = Numeric n \<longrightarrow> 0 \<le> n) \<longrightarrow>
               0 \<le> num (rows df ! i) col))"
proof -
  from assms obtain csv' where csv: "Some csv = Some csv'" "set numeric_cols \<subseteq> set (header csv')"
    "cols = numeric_cols" "rows df = map (load_row (header csv')) (body csv')"
    by (rule load_data_Some)
  then have [simp]: "csv' = csv" by simp
  have "num (load_row (header csv) r) col =
          (case cell_at r col of Numeric n \<Rightarrow> n | Unparsable s \<Rightarrow> 0 | Missing \<Rightarrow> 0)"
    if "col \<in> set cols" for r col
    using that csv(2,3) by (simp add: num_load_row split: cell.splits)
  then show ?thesis
    using csv(4) by (auto split: cell.splits)
qed

text \<open>A cell holding \<open>-5\<close> is loaded as \<open>-5\<close>: negative numbers are not replaced by 0.\<close>

theorem negative_cell_kept:
  "(case load_data (Some negative_csv) of
      Inr (Some (df, cols)) \<Rightarrow> map (\<lambda>r. num r ''Number of Iraqi'') (rows df) = [- 5]
    | _ \<Rightarrow> False)"
  by (simp add: load_data_def negative_csv_def uri_header_def numeric_cols_def
     load_row_def coerce_counts_def cell_at_def num_def)

theorem coercion_keeps_rows_and_numbers_witness:
  "load_data (Some negative_csv) = Inr (Some (negative_df, numeric_cols)) \<and>
   length (rows negative_df) = length (body negative_csv) \<and>
   map (cell_at (body negative_csv ! 0)) numeric_cols =
     [Numeric 4, Missing, Unparsable ''N/A'', Missing, Missing, Numeric (- 5)] \<and>
   map (num (rows negative_df ! 0)) numeric_cols = [4, 0, 0, 0, 0, - 5]"
  using coercion_keeps_rows_and_numbers [OF negative_loaded] negative_loaded
  by (simp add: negative_csv_def negative_df_def example_row_def cell_at_def numeric_cols_def num_def)

subsection \<open>C4: the top districts\<close>

text \<open>
  C4. \<open>nlargest n\<close> never fails. It returns \<open>min n (length rs)\<close> rows (none for
  \<open>n \<le> 0\<close>) in descending order of \<open>Total_Immigrants\<close>; they are rows of the input, no
  row left out has a larger total than a row returned, rows with the same total come in
  input order (a prefix of the input rows with that total), and for \<open>n\<close> at least the
  size of the input every row is returned.
\<close>

theorem nlargest_selection:
  "length (nlargest n rs) = min (nat n) (length rs) \<and>
   sorted_wrt (\<lambda>a b. Total_Immigrants b \<le> Total_Immigrants a) (nlargest n rs) \<and>
   mset (nlargest n rs) \<subseteq># mset rs \<and>
   (\<forall>a\<in>set (nlargest n rs). \<forall>b\<in>#(mset rs - mset (nlargest n rs)).
      Total_Immigrants b \<le> Total_Immigrants a) \<and>
   (\<forall>k. \<exists>m. filter (\<lambda>r. Total_Immigrants r = k) (nlargest n rs) =
            take m (filter (\<lambda>r. Total_Immigrants r = k) rs)) \<and>
   (n \<le> 0 \<longrightarrow> nlargest n rs = []) \<and>
   (1 \<le> n \<and> int (length rs) \<le> n \<longrightarrow> mset (nlargest n rs) = mset rs)"
proof (cases "n \<le> 0")
  case True
  then show ?thesis by (simp add: nlargest_def)
next
  case False
  let ?ys = "sort_values_desc Total_Immigrants rs"
  let ?k = "nat n"
  have nl: "nlargest n rs = take ?k ?ys" using False by (simp add: nlargest_def)
  have srt: "sorted_wrt (\<lambda>a b. Total_Immigrants b \<le> Total_Immigrants a) ?ys"
    by (rule sort_values_desc_sorted)
  have ms: "mset rs = mset (take ?k ?ys) + mset (drop ?k ?ys)"
    using mset_take_drop [of ?ys ?k] by (simp add: sort_values_desc_mset)
  have c1: "length (nlargest n rs) = min (nat n) (length rs)"
    by (simp add: nl sort_values_desc_length)
  have c2: "sorted_wrt (\<lambda>a b. Total_Immigrants b \<le> Total_Immigrants a) (nlargest n rs)"
    unfolding nl using srt by (rule sorted_wrt_take)
  have c3: "mset (nlargest n rs) \<subseteq># mset rs"
    unfolding nl by (subst ms) simp
  have diff: "mset rs - mset (nlargest n rs) = mset (drop ?k ?ys)"
    unfolding nl by (subst ms) simp
  have c4: "\<forall>a\<in>set (nlargest n rs). \<forall>b\<in>#(mset rs - mset (nlargest n rs)).
      Total_Immigrants b \<le> Total_Immigrants a"
    unfolding diff unfolding nl using sorted_wrt_take_drop [OF srt] by auto
  have c5: "\<exists>m. filter (\<lambda>r. Total_Immigrants r = k) (nlargest n rs) =
            take m (filter (\<lambda>r. Total_Immigrants r = k) rs)" for k
    using filter_take_prefix [of "\<lambda>r. Total_Immigrants r = k" ?k ?ys]
    by (simp add: nl sort_values_desc_stable)
  have c7: "int (length rs) \<le> n \<longrightarrow> mset (nlargest n rs) = mset rs"
    by (simp add: nl sort_values_desc_length sort_values_desc_mset)
  from c1 c2 c3 c4 c5 c7 False show ?thesis by blast
qed

text \<open>For \<open>n = 0\<close> and \<open>n = -1\<close> the result is the empty selection, not a failure.\<close>

theorem nlargest_nonpositive_returns_empty:
  "load_data (Some example_csv) = Inr (Some (example_df, numeric_cols)) \<and>
   length (rows example_df) = 4 \<and>
   nlargest 0 (rows example_df) = [] \<and> nlargest (- 1) (rows example_df) = []"
  using example_loaded example_rows_length by (simp add: nlargest_def)

theorem nlargest_selection_witness:
  "map District (nlargest 2 (rows example_df)) = [Some ''Baabda District'', Some ''Zahle District''] \<and>
   map Total_Immigrants (rows example_df) = [15, 0, 8, 8] \<and>
   length (nlargest 2 (rows example_df)) = 2 \<and>
   nlargest 0 (rows example_df) = [] \<and>
   mset (nlargest 1000 (rows example_df)) = mset (rows example_df)"
  using nlargest_selection [of 2 "rows example_df"] nlargest_selection [of 0 "rows example_df"]
    nlargest_selection [of 1000 "rows example_df"] nlargest_example example_rows_length
  by (simp add: example_df_def example_row_def)

subsection \<open>C5: the view restricted to selected categories\<close>




subsection \<open>C6: percentages of a zero whole\<close>

text \<open>
  C6. The two percentage lines divide without a guard. When the totals of the frame sum
  to 0, the share of the top districts is not a finite number: it is \<open>nan\<close> or an
  infinity, and it is \<open>nan\<close> whenever no total is negative. When the totals of the
  governorate table sum to 0, the share of the first three governorates is \<open>nan\<close> or an
  infinity as well. Nothing is raised, and the result is never \<open>0.0\<close>.
\<close>

theorem percentages_of_zero_whole:
  "(sum_list (map Total_Immigrants (rows df)) = 0 \<longrightarrow>
      top_share df top_n \<in> {NaN, PosInf, NegInf} \<and>
      ((\<forall>r\<in>set (rows df). 0 \<le> Total_Immigrants r) \<longrightarrow> top_share df top_n = NaN)) \<and>
   (sum_list (map Total (gov_data df cols)) = 0 \<longrightarrow>
      top3_share df cols \<in> {NaN, PosInf, NegInf})"
proof (intro conjI impI)
  assume z: "sum_list (map Total_Immigrants (rows df)) = 0"
  then show "top_share df top_n \<in> {NaN, PosInf, NegInf}"
    by (simp add: top_share_def np_true_divide_def)
  assume nn: "\<forall>r\<in>set (rows df). 0 \<le> Total_Immigrants r"
  with z have "\<forall>x\<in>set (map Total_Immigrants (rows df)). x = 0"
    by (intro sum_list_nonneg_zero) auto
  then have "\<forall>r\<in>set (rows df). Total_Immigrants r = 0" by simp
  with nlargest_subset [of top_n "rows df"]
  have "\<forall>x\<in>set (map Total_Immigrants (nlargest top_n (rows df))). x = 0"
    by auto
  then have "sum_list (map Total_Immigrants (nlargest top_n (rows df))) = 0"
    by (rule sum_list_all_zero)
  with z show "top_share df top_n = NaN" by (simp add: top_share_def np_true_divide_def)
next
  assume "sum_list (map Total (gov_data df cols)) = 0"
  then show "top3_share df cols \<in> {NaN, PosInf, NegInf}"
    by (simp add: top3_share_def np_true_divide_def)
qed

text \<open>
  A frame of zeros gives \<open>nan\<close> on both percentage lines; totals \<open>5\<close> and \<open>-5\<close> give
  \<open>nan\<close> for the whole frame and \<open>inf\<close> for the top district alone.
\<close>

theorem zero_whole_gives_nan:
  "load_data (Some zero_csv) = Inr (Some (zero_df, numeric_cols)) \<and>
   load_data (Some cancelling_csv) = Inr (Some (cancelling_df, numeric_cols)) \<and>
   top_share zero_df 5 = NaN \<and> top_share cancelling_df 5 = NaN \<and>
   top_share cancelling_df 1 = PosInf \<and> top3_share zero_df numeric_cols = NaN"
  by (intro conjI zero_loaded cancelling_loaded) code_simp+

theorem percentages_of_zero_whole_witness:
  "load_data (Some zero_csv) = Inr (Some (zero_df, numeric_cols)) \<and>
   sum_list (map Total_Immigrants (rows zero_df)) = 0 \<and>
   list_all (\<lambda>r. 0 \<le> Total_Immigrants r) (rows zero_df) \<and>
   top_share zero_df 5 = NaN \<and>
   sum_list (map Total (gov_data zero_df numeric_cols)) = 0 \<and>
   top3_share zero_df numeric_cols \<in> {NaN, PosInf, NegInf}"
proof -
  have h: "sum_list (map Total_Immigrants (rows zero_df)) = 0"
    by (simp add: zero_df_def example_row_def)
  have n: "\<forall>r\<in>set (rows zero_df). 0 \<le> Total_Immigrants r"
    by (simp add: zero_df_def example_row_def)
  have g: "sum_list (map Total (gov_data zero_df numeric_cols)) = 0"
    by code_simp
  from percentages_of_zero_whole [of zero_df 5 numeric_cols] h n g zero_loaded show ?thesis
    unfolding list_all_iff by blast
qed

subsection \<open>C7: the governorate table\<close>



subsection \<open>C8: district and governorate names\<close>

text \<open>
  C8. The district and governorate names are the final segment of the slash-delimited
  identifier with every underscore replaced by a space: an identifier without a slash is
  its own final segment, and in \<open>p/t\<close> with no slash in \<open>t\<close> the final segment is \<open>t\<close>.
\<close>

theorem extract_name_final_segment:
  "(CHR ''/'' \<notin> set s \<longrightarrow>
      extract_name (Some s) = Some (map (\<lambda>c. if c = CHR ''_'' then CHR '' '' else c) s)) \<and>
   (CHR ''/'' \<notin> set t \<longrightarrow>
      extract_name (Some (p @ CHR ''/'' # t)) =
        Some (map (\<lambda>c. if c = CHR ''_'' then CHR '' '' else c) t))"
  by (simp add: extract_name_def str_get_last_def str_split_not_Nil str_split_no_sep
      last_str_split_append str_replace_char)

theorem extract_name_final_segment_witness:
  "extract_name (Some ''Baabda_District'') = Some ''Baabda District'' \<and>
   extract_name (Some ''http://dbpedia.org/resource/Mount_Lebanon_Governorate'') =
     Some ''Mount Lebanon Governorate''"
  using extract_name_final_segment [of "''Baabda_District''" "''Mount_Lebanon_Governorate''"
      "''http://dbpedia.org/resource''"]
  by simp

subsection \<open>C9: the leading district and empty input\<close>




subsection \<open>C10: the largest group among ties\<close>



end
